theory Spec2Isabelle
  imports Main
begin

section \<open>Data model\<close>

text \<open>
  The interfaces \<^verbatim>\<open>Player\<close>, \<^verbatim>\<open>Round\<close>, \<^verbatim>\<open>PointsConfig\<close> and \<^verbatim>\<open>UserTeam\<close> of the
  application's type declarations. \<^verbatim>\<open>number | null\<close> and an optional field are an
  \<^typ>\<open>'a option\<close>. The field \<^verbatim>\<open>id\<close> is written \<open>id'\<close>, since \<open>id\<close> is the identity
  function of HOL, and \<^verbatim>\<open>qualified\<close> is written \<open>qualified'\<close>, since the word is a keyword.

  A \<^verbatim>\<open>number\<close> of the program is a double. A number that the program reads from its data
  (an id, a price, a budget, a size, a count, a configured penalty) is modelled by the integer
  it holds, an \<^typ>\<open>int\<close>: the model covers data whose numbers are finite and whole. A
  number that the program computes by \<^verbatim>\<open>+\<close> or \<^verbatim>\<open>-\<close> is rounded as the double arithmetic
  rounds it, to the nearest double, a tie to the even one, and to an infinity beyond the
  largest double; such a quantity is a \<open>number\<close> below.

  \<open>deadline\<close> holds the value of \<^verbatim>\<open>new Date(round.deadline)\<close> in milliseconds; \<open>None\<close> is
  the invalid date of a string that does not parse.
\<close>

datatype number = Fin int | PosInf | NegInf

text \<open>The distance between neighbouring doubles at a magnitude \<open>a\<close>: 1 below \<open>2^53\<close>, and
  twice as much with every further binary digit.\<close>

function ulp :: "int \<Rightarrow> int" where
  "ulp a = (if a < 2 ^ 53 then 1 else 2 * ulp (a div 2))"
  by pat_completeness auto
termination
  by (relation "measure nat") auto

declare ulp.simps [simp del]

text \<open>The whole number nearest to \<open>x\<close> that a double holds, a tie going to the one with the
  even significand; \<open>roundDouble\<close> is the double that an exact result \<open>x\<close> becomes.\<close>

definition roundInt :: "int \<Rightarrow> int" where
  "roundInt x =
     (let a = \<bar>x\<bar>; u = ulp a; q = a div u; r = a mod u;
          m = (if 2 * r < u then q else if u < 2 * r then q + 1
               else if even q then q else q + 1)
      in sgn x * (m * u))"

definition roundDouble :: "int \<Rightarrow> number" where
  "roundDouble x =
     (let y = roundInt x
      in if 2 ^ 1024 \<le> y then PosInf else if y \<le> - (2 ^ 1024) then NegInf else Fin y)"

text \<open>The operators of the program on these quantities: \<^verbatim>\<open>sum + price\<close>,
  \<^verbatim>\<open>budget - spent\<close>, \<^verbatim>\<open>totalPoints - penalty\<close>, \<^verbatim>\<open>price > remaining\<close>,
  \<^verbatim>\<open>totalCost > budget\<close> and \<^verbatim>\<open>remaining <= 0\<close>.\<close>

definition numAdd :: "number \<Rightarrow> int \<Rightarrow> number" where
  "numAdd a p = (case a of Fin x \<Rightarrow> roundDouble (x + p) | PosInf \<Rightarrow> PosInf | NegInf \<Rightarrow> NegInf)"

definition intSub :: "int \<Rightarrow> number \<Rightarrow> number" where
  "intSub b a = (case a of Fin x \<Rightarrow> roundDouble (b - x) | PosInf \<Rightarrow> NegInf | NegInf \<Rightarrow> PosInf)"

definition numSub :: "number \<Rightarrow> int \<Rightarrow> number" where
  "numSub a p = (case a of Fin x \<Rightarrow> roundDouble (x - p) | PosInf \<Rightarrow> PosInf | NegInf \<Rightarrow> NegInf)"

definition intGt :: "int \<Rightarrow> number \<Rightarrow> bool" where
  "intGt p a = (case a of Fin x \<Rightarrow> p > x | PosInf \<Rightarrow> False | NegInf \<Rightarrow> True)"

definition numGt :: "number \<Rightarrow> int \<Rightarrow> bool" where
  "numGt a b = (case a of Fin x \<Rightarrow> x > b | PosInf \<Rightarrow> True | NegInf \<Rightarrow> False)"

definition numLe :: "number \<Rightarrow> int \<Rightarrow> bool" where
  "numLe a b = (case a of Fin x \<Rightarrow> x \<le> b | PosInf \<Rightarrow> False | NegInf \<Rightarrow> True)"

record Player =
  id' :: int
  name :: string
  price :: int
  qualified' :: bool
  points :: "int option"

record Round =
  round :: int
  deadline :: "int option"
  playersAllowed :: int
  budget :: "int option"
  isClosed :: "bool option"
  freeTransfers :: int
  transferPenalty :: int

text \<open>\<open>transferPenalty\<close> of \<^verbatim>\<open>PointsConfig\<close> is written \<open>transferPenalty'\<close>: the round
  has a field of the same name.\<close>

record PointsConfig =
  correctAnswer :: int
  wrongAnswer :: int
  transferPenalty' :: int
  freeTransfersPerRound :: int

text \<open>The object written to local storage by \<^verbatim>\<open>saveTeam\<close>; its fields carry the prefix
  \<open>team_\<close>, the provider's state below has fields of the same names.\<close>

record UserTeam =
  team_userId :: string
  team_round :: int
  team_selectedPlayers :: "int list"
  team_captainId :: "int option"
  team_transfersUsed :: int
  team_totalPoints :: number

text \<open>
  The state of \<^verbatim>\<open>GameProvider\<close>: one field for each \<^verbatim>\<open>useState\<close> cell the roster
  operations read or write, and \<open>user\<close> for the id of the user that \<^verbatim>\<open>useAuth\<close> supplies
  (\<open>None\<close> when nobody is logged in). Every operation below takes the state it runs in and
  returns the state its setters leave.
\<close>

record game =
  user :: "string option"
  players :: "Player list"
  rounds :: "Round list"
  pointsConfig :: PointsConfig
  currentRound :: int
  selectedPlayers :: "int list"
  captainId :: "int option"
  totalPoints :: number
  transfersUsed :: int

section \<open>Round lifecycle\<close>

text \<open>\<^verbatim>\<open>now < deadline\<close> on two dates; with an invalid date the comparison is false.\<close>

definition before :: "int \<Rightarrow> int option \<Rightarrow> bool" where
  "before now d = (case d of None \<Rightarrow> False | Some t \<Rightarrow> now < t)"

text \<open>The exception of the round scan: \<^verbatim>\<open>toISOString\<close> on an invalid date.\<close>

datatype error = RangeError

text \<open>
  The \<^verbatim>\<open>for\<close> loop of \<^verbatim>\<open>determinCurrentRoundFromData\<close>, with its \<^verbatim>\<open>break\<close>. For each
  round it reaches, the loop first writes \<^verbatim>\<open>deadline.toISOString()\<close> to the console, which
  throws when the deadline is an invalid date, and compares afterwards.
\<close>

fun scanRounds :: "int \<Rightarrow> Round list \<Rightarrow> int \<Rightarrow> error + int" where
  "scanRounds now [] current = Inr current"
| "scanRounds now (r # rs) current =
     (if deadline r = None then Inl RangeError
      else if before now (deadline r) then Inr (round r)
      else scanRounds now rs current)"

text \<open>\<^verbatim>\<open>determinCurrentRoundFromData\<close>; \<open>now\<close> is the clock the function reads. It returns
  the round number, and stores it unless the list is empty; when the scan throws, it returns
  nothing and stores nothing.\<close>

definition determinCurrentRoundFromData ::
  "int \<Rightarrow> Round list \<Rightarrow> game \<Rightarrow> error + (int \<times> game)" where
  "determinCurrentRoundFromData now roundsData s =
     (if length roundsData = 0 then Inr (1, s)
      else (case scanRounds now roundsData 1 of
              Inl e \<Rightarrow> Inl e
            | Inr current \<Rightarrow> Inr (current, s\<lparr>currentRound := current\<rparr>)))"

definition getCurrentRoundInfo :: "game \<Rightarrow> Round option" where
  "getCurrentRoundInfo s = List.find (\<lambda>r. round r = currentRound s) (rounds s)"

section \<open>Roster operations\<close>

text \<open>\<^verbatim>\<open>players.find(p => p.id === playerId)\<close>.\<close>

definition findPlayer :: "Player list \<Rightarrow> int \<Rightarrow> Player option" where
  "findPlayer ps playerId = List.find (\<lambda>p. id' p = playerId) ps"

text \<open>The \<^verbatim>\<open>reduce\<close> of \<^verbatim>\<open>getRemainingBudget\<close> and of \<^verbatim>\<open>saveTeam\<close>: a player that is not in
  the catalog counts 0.\<close>

definition priceOf :: "Player list \<Rightarrow> int \<Rightarrow> int" where
  "priceOf ps playerId = (case findPlayer ps playerId of None \<Rightarrow> 0 | Some p \<Rightarrow> price p)"

definition spent :: "Player list \<Rightarrow> int list \<Rightarrow> number" where
  "spent ps sel = foldl (\<lambda>sum playerId. numAdd sum (priceOf ps playerId)) (Fin 0) sel"

text \<open>\<^verbatim>\<open>getRemainingBudget\<close>; \<open>PosInf\<close> is the \<^verbatim>\<open>Infinity\<close> of a round without budget.\<close>

definition getRemainingBudget :: "game \<Rightarrow> number" where
  "getRemainingBudget s =
     (case getCurrentRoundInfo s of
        None \<Rightarrow> PosInf
      | Some roundInfo \<Rightarrow>
          (case budget roundInfo of
             None \<Rightarrow> PosInf
           | Some b \<Rightarrow> intSub b (spent (players s) (selectedPlayers s))))"

definition canSelectPlayer :: "int \<Rightarrow> game \<Rightarrow> bool" where
  "canSelectPlayer playerId s =
     (case getCurrentRoundInfo s of
        None \<Rightarrow> False
      | Some roundInfo \<Rightarrow>
          if playerId \<in> set (selectedPlayers s) then False
          else if int (length (selectedPlayers s)) \<ge> playersAllowed roundInfo then False
          else (case findPlayer (players s) playerId of
                  None \<Rightarrow> False
                | Some player \<Rightarrow>
                    (case budget roundInfo of
                       None \<Rightarrow> True
                     | Some b \<Rightarrow> \<not> intGt (price player) (getRemainingBudget s))))"

text \<open>
  What a call of a roster operation did: \<open>Done\<close> when it reached its setters, otherwise the
  branch that returned early. \<open>InvalidPlayerId\<close>, \<open>PlayerNotFound\<close> and \<open>InvalidCaptain\<close>
  are the three alerts; \<open>ValidationFailed\<close> and \<open>NotInTeam\<close> are the branches that only
  write to the console.
\<close>

datatype outcome = Done | InvalidPlayerId | PlayerNotFound | ValidationFailed | NotInTeam
  | InvalidCaptain

definition selectPlayer :: "int \<Rightarrow> game \<Rightarrow> outcome \<times> game" where
  "selectPlayer playerId s =
     (if playerId \<le> 0 then (InvalidPlayerId, s)
      else (case findPlayer (players s) playerId of
        None \<Rightarrow> (PlayerNotFound, s)
      | Some player \<Rightarrow>
          if canSelectPlayer playerId s
          then (Done, s\<lparr>selectedPlayers := selectedPlayers s @ [playerId]\<rparr>)
          else (ValidationFailed, s)))"

text \<open>In \<open>removePlayer\<close>, \<^verbatim>\<open>transfersUsed + 1\<close> is \<open>roundInt\<close> of the exact sum: one more than
  a double is never beyond the largest double.\<close>

definition removePlayer :: "int \<Rightarrow> game \<Rightarrow> outcome \<times> game" where
  "removePlayer playerId s =
     (if playerId \<le> 0 then (InvalidPlayerId, s)
      else (case findPlayer (players s) playerId of
        None \<Rightarrow> (PlayerNotFound, s)
      | Some player \<Rightarrow>
          if playerId \<notin> set (selectedPlayers s) then (NotInTeam, s)
          else
            let newSelection = filter (\<lambda>i. i \<noteq> playerId) (selectedPlayers s);
                s1 = (if captainId s = Some playerId then s\<lparr>captainId := None\<rparr> else s);
                freeTransfersRemaining =
                  roundDouble (freeTransfersPerRound (pointsConfig s) - transfersUsed s);
                s2 = (if numLe freeTransfersRemaining 0
                      then s1\<lparr>transfersUsed := roundInt (transfersUsed s + 1),
                             totalPoints :=
                               numSub (totalPoints s) (transferPenalty' (pointsConfig s))\<rparr>
                      else s1\<lparr>transfersUsed := roundInt (transfersUsed s + 1)\<rparr>)
            in (Done, s2\<lparr>selectedPlayers := newSelection\<rparr>)))"

definition setCaptain :: "int option \<Rightarrow> game \<Rightarrow> outcome \<times> game" where
  "setCaptain playerId s =
     (case playerId of
        None \<Rightarrow> (Done, s\<lparr>captainId := None\<rparr>)
      | Some i \<Rightarrow>
          if i \<le> 0 then (InvalidPlayerId, s)
          else (case findPlayer (players s) i of
            None \<Rightarrow> (PlayerNotFound, s)
          | Some player \<Rightarrow>
              if i \<notin> set (selectedPlayers s) then (InvalidCaptain, s)
              else (Done, s\<lparr>captainId := Some i\<rparr>)))"

definition resetSelection :: "game \<Rightarrow> game" where
  "resetSelection s = s\<lparr>selectedPlayers := [], captainId := None, transfersUsed := 0\<rparr>"

text \<open>A sequence of calls of the three operations, each on the state the one before left.\<close>

datatype action = SelectPlayer int | RemovePlayer int | SetCaptain "int option"

fun perform :: "action \<Rightarrow> game \<Rightarrow> outcome \<times> game" where
  "perform (SelectPlayer i) s = selectPlayer i s"
| "perform (RemovePlayer i) s = removePlayer i s"
| "perform (SetCaptain c) s = setCaptain c s"

fun run :: "action list \<Rightarrow> game \<Rightarrow> game" where
  "run [] s = s"
| "run (a # as) s = run as (snd (perform a s))"

section \<open>Saving the team\<close>

text \<open>
  The alerts of \<^verbatim>\<open>saveTeam\<close>, named by their titles (\<open>SaveInvalidCaptain\<close> is its
  ``Invalid Captain''), and the two calls it makes to the outside: \<^verbatim>\<open>api.submitTeam\<close> with
  the user, the round, the selection and the captain, and \<^verbatim>\<open>AsyncStorage.setItem\<close> with the
  user and round of the key and the team written under it.
\<close>

datatype save_alert = AuthenticationRequired | InvalidRound | RoundClosed | IncompleteTeam
  | InvalidTeam | SaveInvalidCaptain | BudgetExceeded | SaveFailed

datatype effect = SubmitTeam string int "int list" "int option" | SetItem string int UserTeam

text \<open>What the outside answers: the server accepts the submission, refuses it
  (\<^verbatim>\<open>success\<close> is false) or the call throws; the local write throws or not.\<close>

datatype reply = Accepted | Refused | Thrown

record world =
  server :: reply
  storageThrows :: bool

text \<open>The result of \<^verbatim>\<open>saveTeam\<close>: the provider's state after the call, the alerts shown and
  the outside calls made, in order.\<close>

record save_out =
  state :: game
  alerts :: "save_alert list"
  effects :: "effect list"

definition saveTeam :: "world \<Rightarrow> game \<Rightarrow> save_out" where
  "saveTeam w s =
     (case user s of
        None \<Rightarrow> \<lparr>state = s, alerts = [AuthenticationRequired], effects = []\<rparr>
      | Some uid \<Rightarrow>
      if uid = [] then \<lparr>state = s, alerts = [AuthenticationRequired], effects = []\<rparr>
      else (case getCurrentRoundInfo s of
        None \<Rightarrow> \<lparr>state = s, alerts = [InvalidRound], effects = []\<rparr>
      | Some roundInfo \<Rightarrow>
          if isClosed roundInfo = Some True
          then \<lparr>state = s, alerts = [RoundClosed], effects = []\<rparr>
          else if int (length (selectedPlayers s)) \<noteq> playersAllowed roundInfo
          then \<lparr>state = s, alerts = [IncompleteTeam], effects = []\<rparr>
          else if length (filter (\<lambda>playerId. findPlayer (players s) playerId = None)
                            (selectedPlayers s)) > 0
          then \<lparr>state = s, alerts = [InvalidTeam], effects = []\<rparr>
          else if (case captainId s of None \<Rightarrow> False
                   | Some c \<Rightarrow> c \<notin> set (selectedPlayers s))
          then \<lparr>state = s, alerts = [SaveInvalidCaptain], effects = []\<rparr>
          else if (case budget roundInfo of None \<Rightarrow> False
                   | Some b \<Rightarrow> numGt (spent (players s) (selectedPlayers s)) b)
          then \<lparr>state = s, alerts = [BudgetExceeded], effects = []\<rparr>
          else
            let teamData = \<lparr>team_userId = uid, team_round = currentRound s,
                            team_selectedPlayers = selectedPlayers s,
                            team_captainId = captainId s,
                            team_transfersUsed = transfersUsed s,
                            team_totalPoints = totalPoints s\<rparr>;
                submit = SubmitTeam uid (currentRound s) (selectedPlayers s)
                           (if captainId s = Some 0 then None else captainId s)
            in (case server w of
                  Thrown \<Rightarrow> \<lparr>state = s, alerts = [SaveFailed], effects = [submit]\<rparr>
                | Refused \<Rightarrow> \<lparr>state = s, alerts = [SaveFailed], effects = [submit]\<rparr>
                | Accepted \<Rightarrow>
                    \<lparr>state = s,
                     alerts = (if storageThrows w then [SaveFailed] else []),
                     effects = [submit, SetItem uid (currentRound s) teamData]\<rparr>)))"

section \<open>The transfer banner of the team selection screen\<close>

text \<open>
  The screen's own state: \<^verbatim>\<open>initialPlayers\<close> and \<^verbatim>\<open>transferCount\<close>. The first effect
  records the selection as the initial team when the team is complete and no initial team
  is recorded; the second counts the selected players that the initial team does not have.
  \<open>render\<close> is what the two effects leave once a state of the provider is on the screen.
\<close>

record screen =
  initialPlayers :: "int list"
  transferCount :: int

definition teamComplete :: "game \<Rightarrow> bool" where
  "teamComplete s =
     (case getCurrentRoundInfo s of
        None \<Rightarrow> False
      | Some roundInfo \<Rightarrow> int (length (selectedPlayers s)) = playersAllowed roundInfo)"

definition trackInitial :: "game \<Rightarrow> screen \<Rightarrow> screen" where
  "trackInitial s sc =
     (if teamComplete s \<and> length (initialPlayers sc) = 0
      then sc\<lparr>initialPlayers := selectedPlayers s\<rparr> else sc)"

definition calcTransfers :: "game \<Rightarrow> screen \<Rightarrow> screen" where
  "calcTransfers s sc =
     (if length (initialPlayers sc) > 0
      then sc\<lparr>transferCount :=
                 int (length (filter (\<lambda>p. p \<notin> set (initialPlayers sc)) (selectedPlayers s)))\<rparr>
      else sc\<lparr>transferCount := 0\<rparr>)"

definition render :: "game \<Rightarrow> screen \<Rightarrow> screen" where
  "render s sc = calcTransfers s (trackInitial s sc)"

fun renders :: "game list \<Rightarrow> screen \<Rightarrow> screen" where
  "renders [] sc = sc"
| "renders (s # ss) sc = renders ss (render s sc)"

definition mounted :: screen where
  "mounted = \<lparr>initialPlayers = [], transferCount = 0\<rparr>"

section \<open>The outcomes of a sequence, and the conditions of the specification\<close>

text \<open>What each call of a sequence of calls did, in order.\<close>

fun outcomes :: "action list \<Rightarrow> game \<Rightarrow> outcome list" where
  "outcomes [] s = []"
| "outcomes (a # as) s = fst (perform a s) # outcomes as (snd (perform a s))"

text \<open>The sum of the prices of a selection as the specification means it: the exact sum
  of whole numbers, not the rounded sum that \<open>spent\<close> computes.\<close>

definition priceSum :: "Player list \<Rightarrow> int list \<Rightarrow> int" where
  "priceSum ps sel = sum_list (map (priceOf ps) sel)"

text \<open>The invariant of the roster under a round: the squad size, the budget when the
  round has one, and the captain.\<close>

definition rosterOk :: "Round \<Rightarrow> game \<Rightarrow> bool" where
  "rosterOk r s =
     (int (length (selectedPlayers s)) \<le> playersAllowed r \<and>
      (case budget r of None \<Rightarrow> True
       | Some b \<Rightarrow> priceSum (players s) (selectedPlayers s) \<le> b) \<and>
      (case captainId s of None \<Rightarrow> True | Some c \<Rightarrow> c \<in> set (selectedPlayers s)))"

text \<open>
  \<open>validateForSave\<close> in the words of the specification, to compare \<open>saveTeam\<close> with: the
  list of all the conditions that a roster violates, in the order the specification names
  them (squad size, players in the catalog, captain, budget, round closed).
\<close>

definition spec_validateForSave :: "Round \<Rightarrow> game \<Rightarrow> save_alert list" where
  "spec_validateForSave r s =
     (if int (length (selectedPlayers s)) \<noteq> playersAllowed r then [IncompleteTeam] else []) @
     (if \<exists>i \<in> set (selectedPlayers s). findPlayer (players s) i = None
      then [InvalidTeam] else []) @
     (if (case captainId s of None \<Rightarrow> False | Some c \<Rightarrow> c \<notin> set (selectedPlayers s))
      then [SaveInvalidCaptain] else []) @
     (if (case budget r of None \<Rightarrow> False
          | Some b \<Rightarrow> priceSum (players s) (selectedPlayers s) > b)
      then [BudgetExceeded] else []) @
     (if isClosed r = Some True then [RoundClosed] else [])"

section \<open>Example data\<close>

text \<open>
  The scenario of the specification: a round of five players with a budget of 30 million
  and its deadline at time 1000, and a catalog of six players, five at 5 million and one at
  10 million. The points configuration is the provider's default, one free transfer and a
  penalty of 30.
\<close>

definition examplePlayers :: "Player list" where
  "examplePlayers =
     map (\<lambda>(i, c). \<lparr>id' = i, name = ''player'', price = c, qualified' = True, points = None\<rparr>)
       [(1, 5000000), (2, 5000000), (3, 5000000), (4, 5000000), (5, 5000000), (6, 10000000)]"

definition exampleRound :: Round where
  "exampleRound = \<lparr>round = 1, deadline = Some 1000, playersAllowed = 5,
     budget = Some 30000000, isClosed = Some False, freeTransfers = 1, transferPenalty = 30\<rparr>"

definition exampleConfig :: PointsConfig where
  "exampleConfig = \<lparr>correctAnswer = 5, wrongAnswer = 0, transferPenalty' = 30,
     freeTransfersPerRound = 1\<rparr>"

definition exampleGame :: game where
  "exampleGame = \<lparr>user = Some ''u1'', players = examplePlayers, rounds = [exampleRound],
     pointsConfig = exampleConfig, currentRound = 1, selectedPlayers = [], captainId = None,
     totalPoints = Fin 0, transfersUsed = 0\<rparr>"

text \<open>Rosters of the example: the five cheap players with player 1 as captain; four
  players; the complete roster after player 2 made room for player 6.\<close>

definition fullGame :: game where
  "fullGame = exampleGame\<lparr>selectedPlayers := [1, 2, 3, 4, 5], captainId := Some 1\<rparr>"

definition shortGame :: game where
  "shortGame = exampleGame\<lparr>selectedPlayers := [1, 2, 3, 4]\<rparr>"

definition swappedGame :: game where
  "swappedGame = exampleGame\<lparr>selectedPlayers := [1, 3, 4, 5, 6], transfersUsed := 1\<rparr>"

text \<open>Four players selected, in a round that the administrator has closed.\<close>

definition closedRound :: Round where
  "closedRound = exampleRound\<lparr>isClosed := Some True\<rparr>"

definition closedShortGame :: game where
  "closedShortGame = exampleGame\<lparr>rounds := [closedRound], selectedPlayers := [1, 2, 3, 4]\<rparr>"

text \<open>A roster that holds player 9, which the catalog does not have (any more), and a
  roster that holds the player of a catalog whose only player has the id 0.\<close>

definition staleGame :: game where
  "staleGame = exampleGame\<lparr>selectedPlayers := [9]\<rparr>"

definition zeroIdGame :: game where
  "zeroIdGame = exampleGame\<lparr>players := [\<lparr>id' = 0, name = ''player'', price = 5000000,
     qualified' = True, points = None\<rparr>], selectedPlayers := [0]\<rparr>"

text \<open>A round 2 whose deadline, time 5, has passed at time 10; a round 3 whose deadline is
  time 1000; a round 2 whose deadline is not a date.\<close>

definition expiredRound2 :: Round where
  "expiredRound2 = \<lparr>round = 2, deadline = Some 5, playersAllowed = 5, budget = None,
     isClosed = None, freeTransfers = 1, transferPenalty = 30\<rparr>"

definition futureRound3 :: Round where
  "futureRound3 = \<lparr>round = 3, deadline = Some 1000, playersAllowed = 5, budget = None,
     isClosed = None, freeTransfers = 1, transferPenalty = 30\<rparr>"

definition undatedRound2 :: Round where
  "undatedRound2 = expiredRound2\<lparr>deadline := None\<rparr>"



text \<open>Rounds and catalogs at the edge: a budget of minus one; a squad size of minus one;
  a catalog with a player of price minus 5 under a budget of 5; and a catalog with a player
  at \<open>2^53 = 9007199254740992\<close>, three players at 1 and one at 3, under budgets just above
  \<open>2^53\<close>.\<close>

definition debtGame :: game where
  "debtGame = exampleGame\<lparr>rounds := [exampleRound\<lparr>budget := Some (- 1)\<rparr>]\<rparr>"

definition noSquadGame :: game where
  "noSquadGame = exampleGame\<lparr>rounds := [exampleRound\<lparr>playersAllowed := - 1\<rparr>]\<rparr>"

definition rebateGame :: game where
  "rebateGame = exampleGame\<lparr>rounds := [exampleRound\<lparr>budget := Some 5\<rparr>],
     players := map (\<lambda>(i, c). \<lparr>id' = i, name = ''player'', price = c, qualified' = True,
       points = None\<rparr>) [(1, - 5), (2, 10)]\<rparr>"

definition hugePlayers :: "Player list" where
  "hugePlayers =
     map (\<lambda>(i, c). \<lparr>id' = i, name = ''player'', price = c, qualified' = True, points = None\<rparr>)
       [(1, 9007199254740992), (2, 1), (3, 1), (4, 1), (5, 3)]"

definition hugeGame :: game where
  "hugeGame = exampleGame\<lparr>players := hugePlayers,
     rounds := [exampleRound\<lparr>budget := Some 9007199254740994\<rparr>]\<rparr>"

definition hugeTrioGame :: game where
  "hugeTrioGame = exampleGame\<lparr>players := hugePlayers,
     rounds := [exampleRound\<lparr>budget := Some 9007199254740996\<rparr>],
     selectedPlayers := [1, 5, 2]\<rparr>"

definition hugePairRound :: Round where
  "hugePairRound = exampleRound\<lparr>playersAllowed := 2, budget := Some 9007199254740992\<rparr>"

definition hugePairGame :: game where
  "hugePairGame = exampleGame\<lparr>players := hugePlayers, rounds := [hugePairRound],
     selectedPlayers := [1, 2]\<rparr>"

text \<open>A server that accepts the submission, and a local storage that works.\<close>

definition online :: world where
  "online = \<lparr>server = Accepted, storageThrows = False\<rparr>"

lemmas example_defs = exampleGame_def exampleRound_def examplePlayers_def exampleConfig_def

lemmas eval_defs = selectPlayer_def removePlayer_def setCaptain_def canSelectPlayer_def
  getCurrentRoundInfo_def getRemainingBudget_def findPlayer_def spent_def priceOf_def
  numAdd_def intSub_def numSub_def intGt_def numGt_def numLe_def

section \<open>Rounding\<close>

lemma ulp_small: "a < 2 ^ 53 \<Longrightarrow> ulp a = 1"
  by (simp add: ulp.simps [of a])

lemma ulp_next: "2 ^ 53 \<le> a \<Longrightarrow> a < 2 ^ 54 \<Longrightarrow> ulp a = 2"
proof -
  assume "2 ^ 53 \<le> a" and "a < 2 ^ 54"
  then have "a div 2 < 2 ^ 53" by simp
  then have "ulp (a div 2) = 1" by (rule ulp_small)
  with \<open>2 ^ 53 \<le> a\<close> show ?thesis by (simp add: ulp.simps [of a])
qed

lemma roundInt_safe: "\<bar>x\<bar> < 2 ^ 53 \<Longrightarrow> roundInt x = x"
  by (simp add: roundInt_def ulp_small mult_sgn_abs)

lemma roundDouble_safe: "\<bar>x\<bar> < 2 ^ 53 \<Longrightarrow> roundDouble x = Fin x"
proof -
  assume a: "\<bar>x\<bar> < 2 ^ 53"
  have "(2::int) ^ 53 \<le> 2 ^ 1024" by simp
  with a have "x < 2 ^ 1024" and "- (2 ^ 1024) < x" by linarith+
  with a show ?thesis by (simp add: roundDouble_def roundInt_safe)
qed

text \<open>Above \<open>2^53\<close> the doubles are two apart, and a tie goes to the even significand.\<close>

lemma roundDouble_big:
  "roundDouble 9007199254740992 = Fin 9007199254740992"
  "roundDouble 9007199254740993 = Fin 9007199254740992"
  "roundDouble 9007199254740994 = Fin 9007199254740994"
  "roundDouble 9007199254740995 = Fin 9007199254740996"
  "roundDouble 9007199254740996 = Fin 9007199254740996"
  "roundDouble 9007199254740997 = Fin 9007199254740996"
  by (simp_all add: roundDouble_def roundInt_def ulp_next)

section \<open>The operations keep the catalog, the rounds and the configuration\<close>

lemma perform_frame:
  "players (snd (perform a s)) = players s \<and> rounds (snd (perform a s)) = rounds s \<and>
   currentRound (snd (perform a s)) = currentRound s \<and>
   pointsConfig (snd (perform a s)) = pointsConfig s"
  by (cases a)
    (auto simp: selectPlayer_def removePlayer_def setCaptain_def Let_def split: option.splits)

lemma getCurrentRoundInfo_perform:
  "getCurrentRoundInfo (snd (perform a s)) = getCurrentRoundInfo s"
  by (simp add: getCurrentRoundInfo_def perform_frame)

lemma run_frame:
  "players (run acts s) = players s \<and> pointsConfig (run acts s) = pointsConfig s"
  by (induction acts arbitrary: s) (simp_all add: perform_frame)

section \<open>The money spent\<close>

lemma priceOf_nonneg: "\<forall>p \<in> set ps. 0 \<le> price p \<Longrightarrow> 0 \<le> priceOf ps i"
  by (auto simp: priceOf_def findPlayer_def find_Some_iff split: option.splits)

lemma priceSum_nonneg: "\<forall>i \<in> set sel. 0 \<le> priceOf ps i \<Longrightarrow> 0 \<le> priceSum ps sel"
  by (induction sel) (auto simp: priceSum_def)

lemma priceSum_append: "priceSum ps (sel @ [i]) = priceSum ps sel + priceOf ps i"
  by (simp add: priceSum_def)

lemma priceSum_filter_le:
  "\<forall>i \<in> set sel. 0 \<le> priceOf ps i \<Longrightarrow> priceSum ps (filter P sel) \<le> priceSum ps sel"
  by (induction sel) (auto simp: priceSum_def intro: add_increasing)

lemma filter_absent: "p \<notin> set xs \<Longrightarrow> filter (\<lambda>i. i \<noteq> p) xs = xs"
  by (induction xs) auto

lemma priceSum_remove:
  assumes "distinct sel" and "p \<in> set sel"
  shows "priceSum ps (filter (\<lambda>i. i \<noteq> p) sel) + priceOf ps p = priceSum ps sel"
  using assms by (induction sel) (auto simp: priceSum_def filter_absent)

text \<open>Without a negative price and with a sum below \<open>2^53\<close>, the rounded sum of the
  program is the exact sum.\<close>

lemma foldl_numAdd_exact:
  assumes "\<forall>i \<in> set sel. 0 \<le> priceOf ps i" and "0 \<le> a" and "a + priceSum ps sel < 2 ^ 53"
  shows "foldl (\<lambda>sum playerId. numAdd sum (priceOf ps playerId)) (Fin a) sel
         = Fin (a + priceSum ps sel)"
  using assms
proof (induction sel arbitrary: a)
  case Nil
  then show ?case by (simp add: priceSum_def)
next
  case (Cons i sel)
  have p: "0 \<le> priceOf ps i" and rest: "0 \<le> priceSum ps sel"
    using Cons.prems(1) by (simp_all add: priceSum_nonneg)
  have tot: "priceSum ps (i # sel) = priceOf ps i + priceSum ps sel"
    by (simp add: priceSum_def)
  have small: "\<bar>a + priceOf ps i\<bar> < 2 ^ 53"
    using p rest tot Cons.prems(2,3) by linarith
  have step: "numAdd (Fin a) (priceOf ps i) = Fin (a + priceOf ps i)"
    using small by (simp add: numAdd_def roundDouble_safe)
  have "foldl (\<lambda>sum playerId. numAdd sum (priceOf ps playerId)) (Fin (a + priceOf ps i)) sel
        = Fin (a + priceOf ps i + priceSum ps sel)"
  proof (rule Cons.IH)
    show "\<forall>i \<in> set sel. 0 \<le> priceOf ps i" using Cons.prems(1) by simp
    show "0 \<le> a + priceOf ps i" using p Cons.prems(2) by linarith
    show "a + priceOf ps i + priceSum ps sel < 2 ^ 53" using tot Cons.prems(3) by linarith
  qed
  then show ?case using step tot by (simp add: add.assoc)
qed

lemma spent_exact:
  assumes "\<forall>i \<in> set sel. 0 \<le> priceOf ps i" and "priceSum ps sel < 2 ^ 53"
  shows "spent ps sel = Fin (priceSum ps sel)"
  using foldl_numAdd_exact [OF assms(1), of 0] assms(2) by (simp add: spent_def)

lemma length_filter_bound:
  "int (length xs) \<le> n \<Longrightarrow> int (length (filter P xs)) \<le> n"
  using length_filter_le [of P xs] by linarith

section \<open>The roster invariant\<close>

lemma rosterOk_perform:
  assumes "getCurrentRoundInfo s = Some r" and "\<forall>p \<in> set (players s). 0 \<le> price p"
    and "budget r = Some B" and "B < 2 ^ 53" and "rosterOk r s"
  shows "rosterOk r (snd (perform a s))"
proof (cases a)
  case (SelectPlayer i)
  let ?sel = "selectedPlayers s"
  have nn: "\<forall>j \<in> set ?sel. 0 \<le> priceOf (players s) j"
    using assms(2) by (simp add: priceOf_nonneg)
  have le: "priceSum (players s) ?sel \<le> B"
    using assms(3,5) by (simp add: rosterOk_def)
  have ge: "0 \<le> priceSum (players s) ?sel"
    using nn by (rule priceSum_nonneg)
  have sp: "spent (players s) ?sel = Fin (priceSum (players s) ?sel)"
    using nn le assms(4) by (intro spent_exact) auto
  have rem: "getRemainingBudget s = Fin (B - priceSum (players s) ?sel)"
    using assms(1,3,4) sp le ge
    by (simp add: getRemainingBudget_def intSub_def roundDouble_safe)
  show ?thesis
  proof (cases "fst (selectPlayer i s) = Done")
    case True
    then obtain pl where fp: "findPlayer (players s) i = Some pl"
      and can: "canSelectPlayer i s"
      and st: "snd (selectPlayer i s) = s\<lparr>selectedPlayers := ?sel @ [i]\<rparr>"
      by (auto simp: selectPlayer_def split: option.splits if_splits)
    from can fp assms(1,3) rem
    have len: "int (length ?sel) < playersAllowed r"
      and pr: "price pl \<le> B - priceSum (players s) ?sel"
      by (auto simp: canSelectPlayer_def intGt_def split: if_splits)
    have "priceOf (players s) i = price pl" using fp by (simp add: priceOf_def)
    then have "priceSum (players s) (?sel @ [i]) \<le> B"
      using pr by (simp add: priceSum_append)
    then show ?thesis
      using SelectPlayer st len assms(3,5)
      by (auto simp: rosterOk_def split: option.splits)
  next
    case False
    then have "snd (selectPlayer i s) = s"
      by (auto simp: selectPlayer_def split: option.splits if_splits)
    then show ?thesis using SelectPlayer assms(5) by simp
  qed
next
  case (RemovePlayer i)
  have nn: "\<forall>j \<in> set (selectedPlayers s). 0 \<le> priceOf (players s) j"
    using assms(2) by (simp add: priceOf_nonneg)
  have "int (length (filter (\<lambda>j. j \<noteq> i) (selectedPlayers s))) \<le> playersAllowed r"
    using assms(5) by (simp add: rosterOk_def length_filter_bound)
  moreover have "priceSum (players s) (filter (\<lambda>j. j \<noteq> i) (selectedPlayers s))
      \<le> priceSum (players s) (selectedPlayers s)"
    using nn by (rule priceSum_filter_le)
  ultimately show ?thesis using RemovePlayer assms(5)
    by (auto simp: rosterOk_def removePlayer_def Let_def split: option.splits if_splits)
next
  case (SetCaptain c)
  then show ?thesis using assms(5)
    by (auto simp: rosterOk_def setCaptain_def split: option.splits if_splits)
qed

lemma rosterOk_run:
  "getCurrentRoundInfo s = Some r \<Longrightarrow> \<forall>p \<in> set (players s). 0 \<le> price p \<Longrightarrow>
   budget r = Some B \<Longrightarrow> B < 2 ^ 53 \<Longrightarrow> rosterOk r s \<Longrightarrow> rosterOk r (run acts s)"
proof (induction acts arbitrary: s)
  case Nil
  then show ?case by simp
next
  case (Cons a acts)
  have "rosterOk r (snd (perform a s))"
    using Cons.prems by (rule rosterOk_perform)
  moreover have "getCurrentRoundInfo (snd (perform a s)) = Some r"
    using Cons.prems(1) by (simp add: getCurrentRoundInfo_perform)
  moreover have "\<forall>p \<in> set (players (snd (perform a s))). 0 \<le> price p"
    using Cons.prems(2) by (simp add: perform_frame)
  ultimately show ?case using Cons.IH Cons.prems(3,4) by simp
qed

text \<open>
  Claim C1, as amended. Take a current round with squad size \<open>N\<close> and budget \<open>B\<close>, neither
  negative and \<open>B\<close> below \<open>2^53\<close>, and a catalog without negative prices. Start from the
  empty roster without captain and make any sequence of calls of \<open>selectPlayer\<close>,
  \<open>removePlayer\<close> and \<open>setCaptain\<close> (a call that is rejected is part of the sequence too).
  The roster then has at most \<open>N\<close> players, their prices add up to at most \<open>B\<close>, exactly
  and as the program adds them, and a captain, when there is one, is one of the selected
  players.
\<close>

theorem roster_invariant:
  assumes "getCurrentRoundInfo s0 = Some r" and "playersAllowed r = N" and "budget r = Some B"
    and "0 \<le> N" and "0 \<le> B" and "B < 2 ^ 53" and "\<forall>p \<in> set (players s0). 0 \<le> price p"
    and "selectedPlayers s0 = []" and "captainId s0 = None"
  shows "int (length (selectedPlayers (run acts s0))) \<le> N \<and>
         priceSum (players s0) (selectedPlayers (run acts s0)) \<le> B \<and>
         spent (players s0) (selectedPlayers (run acts s0))
           = Fin (priceSum (players s0) (selectedPlayers (run acts s0))) \<and>
         (\<forall>c. captainId (run acts s0) = Some c \<longrightarrow> c \<in> set (selectedPlayers (run acts s0)))"
proof -
  have "rosterOk r s0"
    using assms by (simp add: rosterOk_def priceSum_def)
  then have ok: "rosterOk r (run acts s0)"
    using assms(1,3,6,7) by (simp add: rosterOk_run)
  then have le: "priceSum (players s0) (selectedPlayers (run acts s0)) \<le> B"
    using assms(3) by (simp add: rosterOk_def run_frame)
  have "\<forall>i \<in> set (selectedPlayers (run acts s0)). 0 \<le> priceOf (players s0) i"
    using assms(7) by (simp add: priceOf_nonneg)
  then have "spent (players s0) (selectedPlayers (run acts s0))
      = Fin (priceSum (players s0) (selectedPlayers (run acts s0)))"
    using le assms(6) by (intro spent_exact) auto
  then show ?thesis
    using ok le assms(2) by (auto simp: rosterOk_def)
qed

theorem roster_invariant_witness:
  "outcomes [SelectPlayer 1, SelectPlayer 2, SelectPlayer 3, SelectPlayer 4, SelectPlayer 5,
       SelectPlayer 6, SetCaptain (Some 2), RemovePlayer 2, SelectPlayer 6] exampleGame
     = [Done, Done, Done, Done, Done, ValidationFailed, Done, Done, Done] \<and>
   selectedPlayers (run [SelectPlayer 1, SelectPlayer 2, SelectPlayer 3, SelectPlayer 4,
       SelectPlayer 5, SelectPlayer 6, SetCaptain (Some 2), RemovePlayer 2, SelectPlayer 6]
       exampleGame) = [1, 3, 4, 5, 6] \<and>
   priceSum examplePlayers [1, 3, 4, 5, 6] \<le> 30000000 \<and>
   spent examplePlayers [1, 3, 4, 5, 6] = Fin (priceSum examplePlayers [1, 3, 4, 5, 6])"
proof -
  have h1: "getCurrentRoundInfo exampleGame = Some exampleRound"
    by (simp add: getCurrentRoundInfo_def example_defs)
  have h2: "playersAllowed exampleRound = 5" and h3: "budget exampleRound = Some 30000000"
    by (simp_all add: exampleRound_def)
  have h7: "\<forall>p \<in> set (players exampleGame). 0 \<le> price p"
    by (simp add: example_defs)
  have h8: "selectedPlayers exampleGame = []" and h9: "captainId exampleGame = None"
    by (simp_all add: exampleGame_def)
  have out: "outcomes [SelectPlayer 1, SelectPlayer 2, SelectPlayer 3, SelectPlayer 4,
       SelectPlayer 5, SelectPlayer 6, SetCaptain (Some 2), RemovePlayer 2, SelectPlayer 6]
       exampleGame = [Done, Done, Done, Done, Done, ValidationFailed, Done, Done, Done]"
    by (simp add: example_defs eval_defs roundDouble_safe roundInt_safe)
  have sel: "selectedPlayers (run [SelectPlayer 1, SelectPlayer 2, SelectPlayer 3,
       SelectPlayer 4, SelectPlayer 5, SelectPlayer 6, SetCaptain (Some 2), RemovePlayer 2,
       SelectPlayer 6] exampleGame) = [1, 3, 4, 5, 6]"
    by (simp add: example_defs eval_defs roundDouble_safe roundInt_safe)
  have pl: "players exampleGame = examplePlayers"
    by (simp add: exampleGame_def)
  show ?thesis
    using roster_invariant [OF h1 h2 h3 _ _ _ h7 h8 h9, of "[SelectPlayer 1, SelectPlayer 2,
       SelectPlayer 3, SelectPlayer 4, SelectPlayer 5, SelectPlayer 6, SetCaptain (Some 2),
       RemovePlayer 2, SelectPlayer 6]"] out sel pl
    by simp
qed

text \<open>
  Claim C1 as stated fails, in four ways. Under a budget of minus one the empty roster,
  after a call that clears the captain, costs 0, more than the budget; under a squad size
  of minus one it has 0 players, more than the squad size. With a player of price minus 5
  and a player of price 10 under a budget of 5, both are selected and the first is removed:
  the roster costs 10. With a budget of \<open>2^53 + 2\<close>, the player at \<open>2^53\<close> and three
  players at 1 are all selected, since the program's sum stays at \<open>2^53\<close>: the roster
  costs \<open>2^53 + 3\<close>.
\<close>

theorem roster_invariant_counterexample:
  "outcomes [SetCaptain None] debtGame = [Done] \<and>
   \<not> priceSum (players debtGame) (selectedPlayers (run [SetCaptain None] debtGame)) \<le> - 1 \<and>
   outcomes [SetCaptain None] noSquadGame = [Done] \<and>
   \<not> int (length (selectedPlayers (run [SetCaptain None] noSquadGame))) \<le> - 1 \<and>
   outcomes [SelectPlayer 1, SelectPlayer 2, RemovePlayer 1] rebateGame = [Done, Done, Done] \<and>
   \<not> priceSum (players rebateGame)
       (selectedPlayers (run [SelectPlayer 1, SelectPlayer 2, RemovePlayer 1] rebateGame)) \<le> 5 \<and>
   outcomes [SelectPlayer 1, SelectPlayer 2, SelectPlayer 3, SelectPlayer 4] hugeGame
     = [Done, Done, Done, Done] \<and>
   \<not> priceSum (players hugeGame)
       (selectedPlayers (run [SelectPlayer 1, SelectPlayer 2, SelectPlayer 3, SelectPlayer 4]
          hugeGame)) \<le> 9007199254740994"
proof -
  have a: "outcomes [SetCaptain None] debtGame = [Done]"
    "\<not> priceSum (players debtGame) (selectedPlayers (run [SetCaptain None] debtGame)) \<le> - 1"
    by (simp_all add: debtGame_def example_defs eval_defs priceSum_def)
  have b: "outcomes [SetCaptain None] noSquadGame = [Done]"
    "\<not> int (length (selectedPlayers (run [SetCaptain None] noSquadGame))) \<le> - 1"
    by (simp_all add: noSquadGame_def example_defs eval_defs)
  have c: "outcomes [SelectPlayer 1, SelectPlayer 2, RemovePlayer 1] rebateGame
      = [Done, Done, Done]"
    "\<not> priceSum (players rebateGame)
       (selectedPlayers (run [SelectPlayer 1, SelectPlayer 2, RemovePlayer 1] rebateGame)) \<le> 5"
    by (simp_all add: rebateGame_def example_defs eval_defs priceSum_def roundDouble_safe
        roundInt_safe)
  have d: "outcomes [SelectPlayer 1, SelectPlayer 2, SelectPlayer 3, SelectPlayer 4] hugeGame
      = [Done, Done, Done, Done]"
    "\<not> priceSum (players hugeGame)
       (selectedPlayers (run [SelectPlayer 1, SelectPlayer 2, SelectPlayer 3, SelectPlayer 4]
          hugeGame)) \<le> 9007199254740994"
    by (simp_all add: hugeGame_def hugePlayers_def example_defs eval_defs priceSum_def
        roundDouble_safe roundDouble_big)
  from a b c d show ?thesis by blast
qed

section \<open>The current round\<close>

lemma scanRounds_find:
  "\<forall>r \<in> set rs. deadline r \<noteq> None \<Longrightarrow>
   scanRounds now rs c =
     Inr (case List.find (\<lambda>r. before now (deadline r)) rs of None \<Rightarrow> c | Some r \<Rightarrow> round r)"
  by (induction rs) auto

text \<open>A deadline that is not a date makes the scan throw when it reaches it: here before
  it reaches round 3, whose deadline is still to come.\<close>

lemma determinCurrentRound_invalid_date:
  "determinCurrentRoundFromData 10 [undatedRound2, futureRound3] exampleGame = Inl RangeError"
  by (simp add: determinCurrentRoundFromData_def undatedRound2_def expiredRound2_def)

text \<open>
  Claim C2, as amended. For a list of rounds whose deadlines are dates,
  \<open>determinCurrentRoundFromData\<close> returns 1 when the list is empty; otherwise it returns,
  and stores as the current round, the number of the first round of the list, in the order
  given, whose deadline is strictly later than now, and the number 1 when there is no such
  round. The number 1 is the first round's number only when the list starts with round 1.
\<close>

theorem determinCurrentRound_result:
  assumes "\<forall>r \<in> set rs. deadline r \<noteq> None"
  shows "determinCurrentRoundFromData now rs s =
     (let current = (case List.find (\<lambda>r. before now (deadline r)) rs of
                       None \<Rightarrow> 1 | Some r \<Rightarrow> round r)
      in if rs = [] then Inr (1, s) else Inr (current, s\<lparr>currentRound := current\<rparr>))"
  using assms by (simp add: determinCurrentRoundFromData_def scanRounds_find Let_def)

theorem determinCurrentRound_result_witness:
  "determinCurrentRoundFromData 10 [expiredRound2, futureRound3] exampleGame
     = Inr (3, exampleGame\<lparr>currentRound := 3\<rparr>) \<and>
   determinCurrentRoundFromData 10 [] exampleGame = Inr (1, exampleGame)"
proof -
  have h: "\<forall>r \<in> set [expiredRound2, futureRound3]. deadline r \<noteq> None"
    by (simp add: expiredRound2_def futureRound3_def)
  have e: "\<forall>r \<in> set ([] :: Round list). deadline r \<noteq> None"
    by simp
  show ?thesis
    using determinCurrentRound_result [OF h, of 10 exampleGame]
      determinCurrentRound_result [OF e, of 10 exampleGame]
    by (simp add: expiredRound2_def futureRound3_def before_def)
qed

text \<open>
  Claim C2 as stated fails: at time 10 the only round of the list is round 2, with deadline
  5, and the function returns 1, not the number of the first round of the list.
\<close>

theorem determinCurrentRound_counterexample:
  "\<not> before 10 (deadline expiredRound2) \<and> round (hd [expiredRound2]) = 2 \<and>
   determinCurrentRoundFromData 10 [expiredRound2] exampleGame = Inr (1, exampleGame)"
  by (simp add: determinCurrentRoundFromData_def expiredRound2_def before_def exampleGame_def)

section \<open>Transfers and their penalty\<close>

text \<open>\<open>removePlayer\<close> takes the free transfers and the penalty from the points
  configuration; the rounds, and with them the free transfers and the penalty of the
  current round, have no part in what it does.\<close>

lemma removePlayer_without_rounds:
  "removePlayer p (s\<lparr>rounds := rs\<rparr>)
     = (fst (removePlayer p s), (snd (removePlayer p s))\<lparr>rounds := rs\<rparr>)"
  by (auto simp: removePlayer_def Let_def split: option.splits)


section \<open>Rejected calls\<close>

text \<open>
  Claim C10. A call of \<open>selectPlayer\<close>, \<open>removePlayer\<close> or \<open>setCaptain\<close> that does not reach
  its setters (the id is not positive, the player is not in the catalog, the player cannot
  be selected, or the player is not in the roster) leaves the whole state as it is: the
  selection, the captain, the transfers used and the points.
\<close>

theorem rejected_call_keeps_state:
  "(fst (selectPlayer p s) \<noteq> Done \<longrightarrow> snd (selectPlayer p s) = s) \<and>
   (fst (removePlayer p s) \<noteq> Done \<longrightarrow> snd (removePlayer p s) = s) \<and>
   (fst (setCaptain c s) \<noteq> Done \<longrightarrow> snd (setCaptain c s) = s)"
  by (auto simp: selectPlayer_def removePlayer_def setCaptain_def Let_def
      split: option.splits if_splits)

theorem rejected_call_keeps_state_witness:
  "fst (selectPlayer 6 fullGame) = ValidationFailed \<and> snd (selectPlayer 6 fullGame) = fullGame \<and>
   fst (removePlayer 6 fullGame) = NotInTeam \<and> snd (removePlayer 6 fullGame) = fullGame \<and>
   fst (setCaptain (Some 6) fullGame) = InvalidCaptain \<and>
   snd (setCaptain (Some 6) fullGame) = fullGame"
proof -
  have a: "fst (selectPlayer 6 fullGame) = ValidationFailed"
    by (simp add: fullGame_def example_defs eval_defs)
  have b: "fst (removePlayer 6 fullGame) = NotInTeam"
    by (simp add: fullGame_def example_defs eval_defs)
  have c: "fst (setCaptain (Some 6) fullGame) = InvalidCaptain"
    by (simp add: fullGame_def example_defs eval_defs)
  show ?thesis
    using rejected_call_keeps_state [of 6 fullGame "Some 6"] a b c by simp
qed

section \<open>The captain\<close>

text \<open>
  Claim C8, as amended. \<open>setCaptain\<close> of no player always succeeds and clears the captain.
  \<open>setCaptain\<close> of a player \<open>x\<close> is rejected as an invalid id when \<open>x\<close> is not positive,
  else as a player not found when the catalog does not have \<open>x\<close>, else as an invalid captain
  when \<open>x\<close> is not selected; otherwise it succeeds and makes \<open>x\<close> the captain, which changes
  nothing when \<open>x\<close> is the captain already. When every selected player has a positive id
  and is in the catalog, it succeeds exactly when \<open>x\<close> is selected.
\<close>

theorem setCaptain_outcome:
  "setCaptain None s = (Done, s\<lparr>captainId := None\<rparr>) \<and>
   fst (setCaptain (Some x) s) =
     (if x \<le> 0 then InvalidPlayerId
      else if findPlayer (players s) x = None then PlayerNotFound
      else if x \<notin> set (selectedPlayers s) then InvalidCaptain
      else Done) \<and>
   snd (setCaptain (Some x) s) =
     (if fst (setCaptain (Some x) s) = Done then s\<lparr>captainId := Some x\<rparr> else s) \<and>
   (captainId s = Some x \<and> fst (setCaptain (Some x) s) = Done \<longrightarrow>
      snd (setCaptain (Some x) s) = s) \<and>
   ((\<forall>i \<in> set (selectedPlayers s). 0 < i \<and> findPlayer (players s) i \<noteq> None) \<longrightarrow>
      (fst (setCaptain (Some x) s) = Done \<longleftrightarrow> x \<in> set (selectedPlayers s)))"
proof -
  have "fst (setCaptain (Some x) s) = Done \<longleftrightarrow> x \<in> set (selectedPlayers s)"
    if "\<forall>i \<in> set (selectedPlayers s). 0 < i \<and> findPlayer (players s) i \<noteq> None"
  proof (cases "x \<in> set (selectedPlayers s)")
    case True
    with that have "0 < x" and "findPlayer (players s) x \<noteq> None" by auto
    with True show ?thesis by (auto simp: setCaptain_def)
  next
    case False
    then show ?thesis by (auto simp: setCaptain_def split: option.splits)
  qed
  then show ?thesis
    by (auto simp: setCaptain_def split: option.splits if_splits)
qed

theorem setCaptain_outcome_witness:
  "setCaptain (Some 2) fullGame = (Done, fullGame\<lparr>captainId := Some 2\<rparr>) \<and>
   setCaptain (Some 1) fullGame = (Done, fullGame) \<and>
   fst (setCaptain (Some 6) fullGame) = InvalidCaptain"
proof -
  have a: "\<forall>i \<in> set (selectedPlayers fullGame). 0 < i \<and> findPlayer (players fullGame) i \<noteq> None"
    by (simp add: fullGame_def example_defs findPlayer_def)
  have b: "2 \<in> set (selectedPlayers fullGame)" "1 \<in> set (selectedPlayers fullGame)"
    "6 \<notin> set (selectedPlayers fullGame)" "captainId fullGame = Some 1"
    by (simp_all add: fullGame_def example_defs)
  have c: "findPlayer (players fullGame) 6 \<noteq> None"
    by (simp add: fullGame_def example_defs findPlayer_def)
  show ?thesis
    using setCaptain_outcome [of fullGame 2] setCaptain_outcome [of fullGame 1]
      setCaptain_outcome [of fullGame 6] a b c
    by (auto simp: prod_eq_iff)
qed

text \<open>
  Claim C8 as stated fails. Player 7 is neither selected nor in the catalog, and the call is
  rejected as a player not found, not as a player that is not in the roster; player 9 is
  selected but no longer in the catalog, and the call does not succeed.
\<close>

theorem setCaptain_counterexample:
  "7 \<notin> set (selectedPlayers fullGame) \<and> fst (setCaptain (Some 7) fullGame) = PlayerNotFound \<and>
   9 \<in> set (selectedPlayers staleGame) \<and> fst (setCaptain (Some 9) staleGame) \<noteq> Done"
  by (simp add: fullGame_def staleGame_def example_defs eval_defs)

section \<open>Removing a player and selecting it again\<close>

text \<open>
  Claim C6, as amended. Take a roster without duplicates, within the squad size and the
  budget of the current round, with no negative price, a budget below \<open>2^53\<close> and
  \<open>transfersUsed\<close> from 0 to below \<open>2^53 - 1\<close>, and a player \<open>p\<close> that \<open>removePlayer\<close> removes
  from it: a selected player of the catalog with a positive id. Selecting \<open>p\<close> again right
  away succeeds. The roster then holds the same players, with \<open>p\<close> moved to the end of the
  selection; the captain is as before unless \<open>p\<close> was the captain, and then there is no
  captain; \<open>transfersUsed\<close> is one more than before.
\<close>

theorem remove_then_select:
  assumes "getCurrentRoundInfo s = Some r" and "fst (removePlayer p s) = Done"
    and "distinct (selectedPlayers s)"
    and "int (length (selectedPlayers s)) \<le> playersAllowed r"
    and "\<forall>i \<in> set (selectedPlayers s). 0 \<le> priceOf (players s) i"
    and "\<forall>b. budget r = Some b \<longrightarrow> priceSum (players s) (selectedPlayers s) \<le> b \<and> b < 2 ^ 53"
    and "0 \<le> transfersUsed s" and "transfersUsed s < 2 ^ 53 - 1"
  shows "fst (selectPlayer p (snd (removePlayer p s))) = Done \<and>
         selectedPlayers (snd (selectPlayer p (snd (removePlayer p s))))
           = filter (\<lambda>i. i \<noteq> p) (selectedPlayers s) @ [p] \<and>
         set (selectedPlayers (snd (selectPlayer p (snd (removePlayer p s)))))
           = set (selectedPlayers s) \<and>
         captainId (snd (selectPlayer p (snd (removePlayer p s))))
           = (if captainId s = Some p then None else captainId s) \<and>
         transfersUsed (snd (selectPlayer p (snd (removePlayer p s)))) = transfersUsed s + 1"
proof -
  let ?s1 = "snd (removePlayer p s)"
  let ?rest = "filter (\<lambda>i. i \<noteq> p) (selectedPlayers s)"
  from assms(2) obtain pl where pos: "\<not> p \<le> 0" and fp: "findPlayer (players s) p = Some pl"
    and mem: "p \<in> set (selectedPlayers s)"
    by (auto simp: removePlayer_def Let_def split: option.splits if_splits)
  have one: "roundInt (transfersUsed s + 1) = transfersUsed s + 1"
    using assms(7,8) by (intro roundInt_safe) linarith
  have sel1: "selectedPlayers ?s1 = ?rest"
    and cap1: "captainId ?s1 = (if captainId s = Some p then None else captainId s)"
    and tu1: "transfersUsed ?s1 = transfersUsed s + 1"
    and fr1: "players ?s1 = players s" "rounds ?s1 = rounds s"
      "currentRound ?s1 = currentRound s"
    using pos fp mem one by (auto simp: removePlayer_def Let_def)
  have ri1: "getCurrentRoundInfo ?s1 = Some r"
    using assms(1) fr1 by (simp add: getCurrentRoundInfo_def)
  have len: "int (length ?rest) < playersAllowed r"
  proof -
    have "length ?rest < length (selectedPlayers s)"
      using mem by (simp add: length_filter_less)
    then show ?thesis using assms(4) by linarith
  qed
  have nn: "\<forall>i \<in> set ?rest. 0 \<le> priceOf (players s) i"
    using assms(5) by simp
  have tot: "priceSum (players s) ?rest + priceOf (players s) p
      = priceSum (players s) (selectedPlayers s)"
    using assms(3) mem by (rule priceSum_remove)
  have pr: "priceOf (players s) p = price pl"
    using fp by (simp add: priceOf_def)
  have pge: "0 \<le> priceOf (players s) p"
    using assms(5) mem by simp
  have bud: "\<not> intGt (price pl) (getRemainingBudget ?s1)" if b: "budget r = Some b" for b
  proof -
    have le: "priceSum (players s) (selectedPlayers s) \<le> b" and safe: "b < 2 ^ 53"
      using assms(6) b by auto
    have ge: "0 \<le> priceSum (players s) ?rest"
      using nn by (rule priceSum_nonneg)
    have "spent (players s) ?rest = Fin (priceSum (players s) ?rest)"
      using nn tot pge le safe by (intro spent_exact) auto
    then have "getRemainingBudget ?s1 = Fin (b - priceSum (players s) ?rest)"
      using ri1 b sel1 fr1 ge tot pge le safe
      by (simp add: getRemainingBudget_def intSub_def roundDouble_safe)
    then show ?thesis
      using tot pr le by (simp add: intGt_def)
  qed
  have can: "canSelectPlayer p ?s1"
    using ri1 sel1 fr1 fp len bud
    by (auto simp: canSelectPlayer_def split: option.splits)
  have sp: "selectPlayer p ?s1 = (Done, ?s1\<lparr>selectedPlayers := selectedPlayers ?s1 @ [p]\<rparr>)"
    using pos fp fr1 can by (simp add: selectPlayer_def)
  show ?thesis
    using sp sel1 cap1 tu1 mem by auto
qed

theorem remove_then_select_witness:
  "fst (removePlayer 2 fullGame) = Done \<and>
   fst (selectPlayer 2 (snd (removePlayer 2 fullGame))) = Done \<and>
   selectedPlayers (snd (selectPlayer 2 (snd (removePlayer 2 fullGame)))) = [1, 3, 4, 5, 2] \<and>
   captainId (snd (selectPlayer 2 (snd (removePlayer 2 fullGame)))) = Some 1 \<and>
   transfersUsed (snd (selectPlayer 2 (snd (removePlayer 2 fullGame)))) = 1"
proof -
  have h1: "getCurrentRoundInfo fullGame = Some exampleRound"
    by (simp add: getCurrentRoundInfo_def fullGame_def example_defs)
  have h2: "fst (removePlayer 2 fullGame) = Done"
    by (simp add: fullGame_def example_defs eval_defs roundDouble_safe)
  have h3: "distinct (selectedPlayers fullGame)"
    by (simp add: fullGame_def example_defs)
  have h4: "int (length (selectedPlayers fullGame)) \<le> playersAllowed exampleRound"
    by (simp add: fullGame_def example_defs)
  have h5: "\<forall>i \<in> set (selectedPlayers fullGame). 0 \<le> priceOf (players fullGame) i"
    by (simp add: fullGame_def example_defs priceOf_def findPlayer_def)
  have h6: "\<forall>b. budget exampleRound = Some b \<longrightarrow>
      priceSum (players fullGame) (selectedPlayers fullGame) \<le> b \<and> b < 2 ^ 53"
    by (simp add: fullGame_def example_defs priceSum_def priceOf_def findPlayer_def)
  have h7: "0 \<le> transfersUsed fullGame" and h8: "transfersUsed fullGame < 2 ^ 53 - 1"
    by (simp_all add: fullGame_def example_defs)
  have v: "selectedPlayers fullGame = [1, 2, 3, 4, 5]" "captainId fullGame = Some 1"
    "transfersUsed fullGame = 0"
    by (simp_all add: fullGame_def example_defs)
  show ?thesis
    using remove_then_select [OF h1 h2 h3 h4 h5 h6 h7 h8] h2 v by simp
qed

text \<open>
  Claim C6 as stated fails. Player 1 is the captain of the complete roster; after it is
  removed and selected again there is no captain, and player 1 is the last of the selection,
  not the first. The selected player with the id 0 is not removed at all, so no transfer is
  counted. And in the roster of the players at \<open>2^53\<close>, 3 and 1 under a budget of
  \<open>2^53 + 4\<close>, the player at 1 is removed and cannot be selected again: the program adds
  the two others to \<open>2^53 + 4\<close> and sees no budget left.
\<close>

theorem remove_then_select_counterexample:
  "1 \<in> set (selectedPlayers fullGame) \<and>
   captainId (snd (selectPlayer 1 (snd (removePlayer 1 fullGame)))) \<noteq> captainId fullGame \<and>
   selectedPlayers (snd (selectPlayer 1 (snd (removePlayer 1 fullGame))))
     \<noteq> selectedPlayers fullGame \<and>
   0 \<in> set (selectedPlayers zeroIdGame) \<and>
   transfersUsed (snd (selectPlayer 0 (snd (removePlayer 0 zeroIdGame))))
     \<noteq> transfersUsed zeroIdGame + 1 \<and>
   2 \<in> set (selectedPlayers hugeTrioGame) \<and>
   priceSum (players hugeTrioGame) (selectedPlayers hugeTrioGame) = 9007199254740996 \<and>
   fst (removePlayer 2 hugeTrioGame) = Done \<and>
   fst (selectPlayer 2 (snd (removePlayer 2 hugeTrioGame))) = ValidationFailed \<and>
   selectedPlayers (snd (selectPlayer 2 (snd (removePlayer 2 hugeTrioGame)))) = [1, 5]"
proof -
  have a: "1 \<in> set (selectedPlayers fullGame)"
    "captainId (snd (selectPlayer 1 (snd (removePlayer 1 fullGame)))) \<noteq> captainId fullGame"
    "selectedPlayers (snd (selectPlayer 1 (snd (removePlayer 1 fullGame))))
      \<noteq> selectedPlayers fullGame"
    by (simp_all add: fullGame_def example_defs eval_defs roundDouble_safe roundInt_safe)
  have b: "0 \<in> set (selectedPlayers zeroIdGame)"
    "transfersUsed (snd (selectPlayer 0 (snd (removePlayer 0 zeroIdGame))))
      \<noteq> transfersUsed zeroIdGame + 1"
    by (simp_all add: zeroIdGame_def example_defs eval_defs)
  have c: "2 \<in> set (selectedPlayers hugeTrioGame)"
    "priceSum (players hugeTrioGame) (selectedPlayers hugeTrioGame) = 9007199254740996"
    "fst (removePlayer 2 hugeTrioGame) = Done"
    "fst (selectPlayer 2 (snd (removePlayer 2 hugeTrioGame))) = ValidationFailed"
    "selectedPlayers (snd (selectPlayer 2 (snd (removePlayer 2 hugeTrioGame)))) = [1, 5]"
    by (simp_all add: hugeTrioGame_def hugePlayers_def example_defs eval_defs priceSum_def
        roundDouble_safe roundInt_safe roundDouble_big)
  from a b c show ?thesis by blast
qed

section \<open>Saving the team\<close>

lemma saveTeam_state: "state (saveTeam w s) = s"
  by (auto simp: saveTeam_def Let_def split: option.splits reply.splits)

lemma saveTeam_RoundClosed_iff:
  "RoundClosed \<in> set (alerts (saveTeam w s)) \<longleftrightarrow>
     (\<exists>uid r. user s = Some uid \<and> uid \<noteq> [] \<and> getCurrentRoundInfo s = Some r \<and>
        isClosed r = Some True)"
  by (auto simp: saveTeam_def Let_def split: option.splits reply.splits)

text \<open>
  Claim C4. The claim asks \<open>saveTeam\<close> to reject a save after the deadline of the round.
  \<open>saveTeam\<close> reads the flag \<open>isClosed\<close> only: at time 2000 the deadline of the example
  round, time 1000, has passed, the round is still the current round, its flag is false, and
  the complete roster is submitted to the server and written to the local storage, without
  any alert.
\<close>

theorem saveTeam_after_deadline:
  "\<not> before 2000 (deadline exampleRound) \<and> isClosed exampleRound = Some False \<and>
   determinCurrentRoundFromData 2000 (rounds fullGame) fullGame = Inr (1, fullGame) \<and>
   getCurrentRoundInfo fullGame = Some exampleRound \<and>
   alerts (saveTeam online fullGame) = [] \<and>
   effects (saveTeam online fullGame) =
     [SubmitTeam ''u1'' 1 [1, 2, 3, 4, 5] (Some 1),
      SetItem ''u1'' 1 \<lparr>team_userId = ''u1'', team_round = 1,
        team_selectedPlayers = [1, 2, 3, 4, 5], team_captainId = Some 1,
        team_transfersUsed = 0, team_totalPoints = Fin 0\<rparr>]"
  by (simp add: fullGame_def online_def example_defs eval_defs saveTeam_def before_def
      determinCurrentRoundFromData_def roundDouble_safe)

text \<open>
  Claim C7, as amended. With a user logged in and a current round, and a roster without a
  negative price whose prices add up to less than \<open>2^53\<close>, \<open>saveTeam\<close> checks the round's
  closed flag, the squad size, the players against the catalog, the captain and the budget,
  in this order, and stops at the first condition that is violated: it shows the alert of
  that condition alone and makes no call to the outside. It calls the server exactly when
  no condition is violated, and then shows no alert but the one of a save that failed.
\<close>

theorem saveTeam_first_violation:
  assumes "user s = Some uid" and "uid \<noteq> []" and "getCurrentRoundInfo s = Some r"
    and "\<forall>i \<in> set (selectedPlayers s). 0 \<le> priceOf (players s) i"
    and "priceSum (players s) (selectedPlayers s) < 2 ^ 53"
  shows "(spec_validateForSave r s = [] \<longrightarrow>
            effects (saveTeam w s) \<noteq> [] \<and> set (alerts (saveTeam w s)) \<subseteq> {SaveFailed}) \<and>
         (spec_validateForSave r s \<noteq> [] \<longrightarrow>
            effects (saveTeam w s) = [] \<and>
            alerts (saveTeam w s) =
              [if RoundClosed \<in> set (spec_validateForSave r s) then RoundClosed
               else hd (spec_validateForSave r s)])"
proof -
  have "spent (players s) (selectedPlayers s) = Fin (priceSum (players s) (selectedPlayers s))"
    using assms(4,5) by (rule spent_exact)
  then have chk: "(case budget r of None \<Rightarrow> False
        | Some b \<Rightarrow> numGt (spent (players s) (selectedPlayers s)) b)
      = (case budget r of None \<Rightarrow> False
         | Some b \<Rightarrow> priceSum (players s) (selectedPlayers s) > b)"
    by (simp add: numGt_def split: option.splits)
  show ?thesis
    using assms(1,2,3)
    by (auto simp: saveTeam_def spec_validateForSave_def filter_empty_conv Let_def chk
        split: reply.splits)
qed

theorem saveTeam_first_violation_witness:
  "spec_validateForSave closedRound closedShortGame = [IncompleteTeam, RoundClosed] \<and>
   alerts (saveTeam online closedShortGame) = [RoundClosed] \<and>
   effects (saveTeam online closedShortGame) = [] \<and>
   spec_validateForSave exampleRound fullGame = [] \<and>
   effects (saveTeam online fullGame) \<noteq> [] \<and>
   alerts (saveTeam online fullGame) = []"
proof -
  have u: "user closedShortGame = Some ''u1''" "user fullGame = Some ''u1''" "''u1'' \<noteq> []"
    by (simp_all add: closedRound_def closedShortGame_def fullGame_def example_defs)
  have r1: "getCurrentRoundInfo closedShortGame = Some closedRound"
    by (simp add: getCurrentRoundInfo_def closedRound_def closedShortGame_def example_defs)
  have r2: "getCurrentRoundInfo fullGame = Some exampleRound"
    by (simp add: getCurrentRoundInfo_def fullGame_def example_defs)
  have n1: "\<forall>i \<in> set (selectedPlayers closedShortGame). 0 \<le> priceOf (players closedShortGame) i"
    and n2: "\<forall>i \<in> set (selectedPlayers fullGame). 0 \<le> priceOf (players fullGame) i"
    by (simp_all add: closedShortGame_def fullGame_def example_defs priceOf_def findPlayer_def)
  have s1: "priceSum (players closedShortGame) (selectedPlayers closedShortGame) < 2 ^ 53"
    and s2: "priceSum (players fullGame) (selectedPlayers fullGame) < 2 ^ 53"
    by (simp_all add: closedShortGame_def fullGame_def example_defs priceSum_def priceOf_def
        findPlayer_def)
  have v1: "spec_validateForSave closedRound closedShortGame = [IncompleteTeam, RoundClosed]"
    by (simp add: spec_validateForSave_def closedRound_def closedShortGame_def example_defs
        findPlayer_def priceSum_def priceOf_def)
  have v2: "spec_validateForSave exampleRound fullGame = []"
    by (simp add: spec_validateForSave_def fullGame_def example_defs findPlayer_def
        priceSum_def priceOf_def)
  have a2: "alerts (saveTeam online fullGame) = []"
    by (simp add: saveTeam_def online_def fullGame_def example_defs eval_defs roundDouble_safe)
  show ?thesis
    using saveTeam_first_violation [OF u(1) u(3) r1 n1 s1, of online]
      saveTeam_first_violation [OF u(2) u(3) r2 n2 s2, of online] v1 v2 a2
    by simp
qed

text \<open>
  Claim C7 as stated fails. Four of five players are selected and the round is closed: two
  conditions are violated, and \<open>saveTeam\<close> reports the closed round alone. And the roster
  of the players at \<open>2^53\<close> and at 1 costs more than the budget \<open>2^53\<close> of its round, but
  the program adds the prices to \<open>2^53\<close> and saves the team without any alert.
\<close>

theorem saveTeam_collects_counterexample:
  "spec_validateForSave closedRound closedShortGame = [IncompleteTeam, RoundClosed] \<and>
   getCurrentRoundInfo closedShortGame = Some closedRound \<and>
   alerts (saveTeam online closedShortGame) = [RoundClosed] \<and>
   spec_validateForSave hugePairRound hugePairGame = [BudgetExceeded] \<and>
   getCurrentRoundInfo hugePairGame = Some hugePairRound \<and>
   alerts (saveTeam online hugePairGame) = [] \<and>
   length (effects (saveTeam online hugePairGame)) = 2"
proof -
  have a: "spec_validateForSave closedRound closedShortGame = [IncompleteTeam, RoundClosed]"
    "getCurrentRoundInfo closedShortGame = Some closedRound"
    "alerts (saveTeam online closedShortGame) = [RoundClosed]"
    by (simp_all add: spec_validateForSave_def saveTeam_def online_def closedRound_def
        closedShortGame_def example_defs eval_defs priceSum_def)
  have b: "spec_validateForSave hugePairRound hugePairGame = [BudgetExceeded]"
    "getCurrentRoundInfo hugePairGame = Some hugePairRound"
    "alerts (saveTeam online hugePairGame) = []"
    "length (effects (saveTeam online hugePairGame)) = 2"
    by (simp_all add: spec_validateForSave_def saveTeam_def online_def hugePairRound_def
        hugePairGame_def hugePlayers_def example_defs eval_defs priceSum_def roundDouble_safe
        roundDouble_big)
  from a b show ?thesis by blast
qed

text \<open>
  Claim C9, as amended. When the number of selected players differs from the squad size of
  the current round, \<open>saveTeam\<close> saves nothing, neither on the server nor locally, and
  leaves the state as it is. It shows one alert: the incomplete team when a user is logged
  in and the round's closed flag is not set, the closed round when a user is logged in and
  the flag is set, and the missing authentication when no user is logged in.
\<close>

theorem saveTeam_incomplete:
  assumes "getCurrentRoundInfo s = Some r"
    and "int (length (selectedPlayers s)) \<noteq> playersAllowed r"
  shows "effects (saveTeam w s) = [] \<and> state (saveTeam w s) = s \<and>
         alerts (saveTeam w s) =
           [if (case user s of None \<Rightarrow> True | Some uid \<Rightarrow> uid = []) then AuthenticationRequired
            else if isClosed r = Some True then RoundClosed
            else IncompleteTeam]"
  using assms
  by (auto simp: saveTeam_def split: option.splits)

theorem saveTeam_incomplete_witness:
  "int (length (selectedPlayers shortGame)) = 4 \<and> playersAllowed exampleRound = 5 \<and>
   effects (saveTeam online shortGame) = [] \<and> state (saveTeam online shortGame) = shortGame \<and>
   alerts (saveTeam online shortGame) = [IncompleteTeam]"
proof -
  have r: "getCurrentRoundInfo shortGame = Some exampleRound"
    by (simp add: getCurrentRoundInfo_def shortGame_def example_defs)
  have n: "int (length (selectedPlayers shortGame)) \<noteq> playersAllowed exampleRound"
    by (simp add: shortGame_def example_defs)
  have v: "int (length (selectedPlayers shortGame)) = 4" "playersAllowed exampleRound = 5"
    "user shortGame = Some ''u1''" "isClosed exampleRound = Some False"
    by (simp_all add: shortGame_def example_defs)
  show ?thesis
    using saveTeam_incomplete [OF r n, of online] v by simp
qed

text \<open>
  Claim C9 as stated fails: four of five players are selected in a round that is closed, and
  \<open>saveTeam\<close> reports the closed round, not the incomplete team.
\<close>

theorem saveTeam_incomplete_counterexample:
  "getCurrentRoundInfo closedShortGame = Some closedRound \<and>
   int (length (selectedPlayers closedShortGame)) \<noteq> playersAllowed closedRound \<and>
   IncompleteTeam \<notin> set (alerts (saveTeam online closedShortGame))"
  by (simp add: saveTeam_def online_def closedRound_def closedShortGame_def example_defs eval_defs)

section \<open>The transfer count of the screen\<close>

lemma initialPlayers_render:
  "initialPlayers (render s sc) =
     (if teamComplete s \<and> initialPlayers sc = [] then selectedPlayers s else initialPlayers sc)"
  by (auto simp: render_def calcTransfers_def trackInitial_def)

lemma transferCount_render:
  "transferCount (render s sc) =
     (if initialPlayers (render s sc) = [] then 0
      else int (length (filter (\<lambda>p. p \<notin> set (initialPlayers (render s sc)))
                  (selectedPlayers s))))"
  by (simp add: render_def calcTransfers_def trackInitial_def)

lemma initialPlayers_renders:
  assumes "\<forall>s \<in> set ss. teamComplete s \<longrightarrow> selectedPlayers s \<noteq> []"
  shows "initialPlayers (renders ss sc) =
     (if initialPlayers sc \<noteq> [] then initialPlayers sc
      else case List.find teamComplete ss of None \<Rightarrow> [] | Some b \<Rightarrow> selectedPlayers b)"
  using assms
proof (induction ss arbitrary: sc)
  case Nil
  then show ?case by simp
next
  case (Cons s ss)
  then show ?case by (simp add: initialPlayers_render)
qed

lemma transferCount_renders:
  "ss \<noteq> [] \<Longrightarrow> transferCount (renders ss sc) =
     (if initialPlayers (renders ss sc) = [] then 0
      else int (length (filter (\<lambda>p. p \<notin> set (initialPlayers (renders ss sc)))
                  (selectedPlayers (last ss)))))"
proof (induction ss arbitrary: sc)
  case Nil
  then show ?case by simp
next
  case (Cons s ss)
  show ?case
  proof (cases ss)
    case Nil
    then show ?thesis by (simp add: transferCount_render)
  next
    case (Cons s' ss')
    then have "ss \<noteq> []" by simp
    from Cons.IH [OF this, of "render s sc"] show ?thesis
      using \<open>ss \<noteq> []\<close> by simp
  qed
qed

lemma length_filter_card:
  assumes "distinct xs"
  shows "length (filter (\<lambda>p. p \<notin> B) xs) = card (set xs - B)"
proof -
  have "set (filter (\<lambda>p. p \<notin> B) xs) = set xs - B" by auto
  moreover have "distinct (filter (\<lambda>p. p \<notin> B) xs)" using assms by simp
  ultimately show ?thesis by (metis distinct_card)
qed

lemma teamComplete_nonempty:
  "teamComplete s \<Longrightarrow> \<forall>r. getCurrentRoundInfo s = Some r \<longrightarrow> playersAllowed r \<noteq> 0 \<Longrightarrow>
   selectedPlayers s \<noteq> []"
  by (auto simp: teamComplete_def split: option.splits)

text \<open>
  Claim C5. The screen is mounted and shows the states \<open>ss\<close> of the provider one after the
  other; no round has squad size 0 and the selection on the screen has no duplicates. The
  initial team of the screen is then the selection of the first state whose roster has
  exactly as many players as its round allows, and there is none before such a state. The
  transfer count is 0 as long as there is no initial team; afterwards it is the number of
  the selected players that are not in the initial team.
\<close>

theorem transferCount_net:
  assumes "ss \<noteq> []" and "distinct (selectedPlayers (last ss))"
    and "\<forall>s \<in> set ss. \<forall>r. getCurrentRoundInfo s = Some r \<longrightarrow> playersAllowed r \<noteq> 0"
  shows "initialPlayers (renders ss mounted) =
           (case List.find teamComplete ss of None \<Rightarrow> [] | Some b \<Rightarrow> selectedPlayers b) \<and>
         transferCount (renders ss mounted) =
           (case List.find teamComplete ss of
              None \<Rightarrow> 0
            | Some b \<Rightarrow> int (card (set (selectedPlayers (last ss)) - set (selectedPlayers b))))"
proof -
  have ne: "\<forall>s \<in> set ss. teamComplete s \<longrightarrow> selectedPlayers s \<noteq> []"
    using assms(3) teamComplete_nonempty by blast
  have ini: "initialPlayers (renders ss mounted) =
           (case List.find teamComplete ss of None \<Rightarrow> [] | Some b \<Rightarrow> selectedPlayers b)"
    using initialPlayers_renders [OF ne, of mounted] by (simp add: mounted_def)
  have cnt: "transferCount (renders ss mounted) =
     (if initialPlayers (renders ss mounted) = [] then 0
      else int (card (set (selectedPlayers (last ss))
                  - set (initialPlayers (renders ss mounted)))))"
    using transferCount_renders [OF assms(1), of mounted] length_filter_card [OF assms(2)]
    by simp
  show ?thesis
  proof (cases "List.find teamComplete ss")
    case None
    then show ?thesis using ini cnt by simp
  next
    case (Some b)
    then have "b \<in> set ss" and "teamComplete b"
      by (auto simp: find_Some_iff)
    then have "selectedPlayers b \<noteq> []" using ne by blast
    then show ?thesis using ini cnt Some by simp
  qed
qed

theorem transferCount_net_witness:
  "initialPlayers (renders [exampleGame, fullGame, swappedGame] mounted) = [1, 2, 3, 4, 5] \<and>
   transferCount (renders [exampleGame, fullGame, swappedGame] mounted) = 1 \<and>
   int (card (set (selectedPlayers swappedGame) - set (selectedPlayers fullGame))) = 1 \<and>
   transferCount (renders [exampleGame, shortGame] mounted) = 0"
proof -
  have h1: "[exampleGame, fullGame, swappedGame] \<noteq> []" by simp
  have h2: "distinct (selectedPlayers (last [exampleGame, fullGame, swappedGame]))"
    by (simp add: fullGame_def swappedGame_def shortGame_def)
  have h3: "\<forall>s \<in> set [exampleGame, fullGame, swappedGame].
      \<forall>r. getCurrentRoundInfo s = Some r \<longrightarrow> playersAllowed r \<noteq> 0"
    by (simp add: getCurrentRoundInfo_def fullGame_def swappedGame_def shortGame_def example_defs)
  have f: "List.find teamComplete [exampleGame, fullGame, swappedGame] = Some fullGame"
    by (simp add: teamComplete_def getCurrentRoundInfo_def fullGame_def swappedGame_def shortGame_def example_defs)
  have c: "transferCount (renders [exampleGame, fullGame, swappedGame] mounted) = 1"
    by (simp add: render_def calcTransfers_def trackInitial_def mounted_def teamComplete_def
        getCurrentRoundInfo_def fullGame_def swappedGame_def shortGame_def example_defs)
  have s: "selectedPlayers fullGame = [1, 2, 3, 4, 5]"
    by (simp add: fullGame_def swappedGame_def shortGame_def)
  have k1: "[exampleGame, shortGame] \<noteq> []" by simp
  have k2: "distinct (selectedPlayers (last [exampleGame, shortGame]))"
    by (simp add: fullGame_def swappedGame_def shortGame_def)
  have k3: "\<forall>s \<in> set [exampleGame, shortGame].
      \<forall>r. getCurrentRoundInfo s = Some r \<longrightarrow> playersAllowed r \<noteq> 0"
    by (simp add: getCurrentRoundInfo_def fullGame_def swappedGame_def shortGame_def example_defs)
  have g: "List.find teamComplete [exampleGame, shortGame] = None"
    by (simp add: teamComplete_def getCurrentRoundInfo_def fullGame_def swappedGame_def shortGame_def example_defs)
  show ?thesis
    using transferCount_net [OF h1 h2 h3] transferCount_net [OF k1 k2 k3] f g c s by simp
qed

end
